theory Spec2Isabelle
  imports Main "HOL-Library.Word"
begin

section \<open>Go runtime and library functions used by the sources\<close>

text \<open>
  Go strings and byte slices are sequences of bytes: \<^typ>\<open>string\<close>. A run-time panic of the
  modelled code is a value: every function that can dereference a nil pointer or slice out of
  range returns \<open>panic + 'a\<close>, with \<open>Inl\<close> for the panic.
\<close>

datatype panic = NilPointerDereference | SliceBoundsOutOfRange

text \<open>
  \<open>strings.Index(s, substr)\<close>: the index of the first instance of \<open>substr\<close> in \<open>s\<close>, or
  \<open>-1\<close> if \<open>substr\<close> is not present in \<open>s\<close>.
\<close>

fun strings_Index :: "string \<Rightarrow> string \<Rightarrow> int" where
  "strings_Index [] substr = (if substr = [] then 0 else -1)"
| "strings_Index (c # s) substr =
     (if take (length substr) (c # s) = substr then 0
      else (let i = strings_Index s substr in if i < 0 then -1 else i + 1))"

text \<open>The slice expression \<open>s[low:]\<close>, which panics unless \<open>0 \<le> low \<le> len(s)\<close>.\<close>

definition slice_from :: "string \<Rightarrow> int \<Rightarrow> panic + string" where
  "slice_from s low =
     (if 0 \<le> low \<and> low \<le> int (length s) then Inr (drop (nat low) s)
      else Inl SliceBoundsOutOfRange)"

text \<open>
  \<open>strings.Split(s, sep)\<close> for a separator of one byte, the only way the sources call it
  (\<open>sep = "/"\<close>): the substrings between the separators, found from left to right with
  \<open>strings.Index\<close> as the library's loop does; a string without separator gives the
  one-element slice holding the string itself.
\<close>

function strings_Split :: "string \<Rightarrow> char \<Rightarrow> string list" where
  "strings_Split s sep =
     (if strings_Index s [sep] < 0 then [s]
      else take (nat (strings_Index s [sep])) s
             # strings_Split (drop (nat (strings_Index s [sep]) + 1) s) sep)"
  by pat_completeness auto
termination
proof (relation "measure (\<lambda>(s, sep). length s)")
  show "wf (measure (\<lambda>(s, sep). length s))" by simp
next
  fix s :: string and sep :: char
  assume "\<not> strings_Index s [sep] < 0"
  then have "s \<noteq> []" by (cases s) auto
  then show "((drop (nat (strings_Index s [sep]) + 1) s, sep), (s, sep))
               \<in> measure (\<lambda>(s, sep). length s)"
    by simp
qed

declare strings_Split.simps [simp del]

text \<open>
  \<open>base64.StdEncoding.EncodeToString\<close>: the standard alphabet of RFC 4648 with \<open>=\<close>
  padding, three input bytes to four output characters.
\<close>

definition encodeStd :: string where
  "encodeStd = ''ABCDEFGHIJKLMNOPQRSTUVWXYZabcdefghijklmnopqrstuvwxyz0123456789+/''"

definition sextet :: "nat \<Rightarrow> char" where
  "sextet n = encodeStd ! (n mod 64)"

fun EncodeToString :: "string \<Rightarrow> string" where
  "EncodeToString [] = []"
| "EncodeToString [a] =
     (let x = (of_char a :: nat)
      in [sextet (x div 4), sextet (x mod 4 * 16), CHR ''='', CHR ''=''])"
| "EncodeToString [a, b] =
     (let x = (of_char a :: nat); y = (of_char b :: nat)
      in [sextet (x div 4), sextet (x mod 4 * 16 + y div 16), sextet (y mod 16 * 4),
          CHR ''=''])"
| "EncodeToString (a # b # c # rest) =
     (let x = (of_char a :: nat); y = (of_char b :: nat); z = (of_char c :: nat)
      in [sextet (x div 4), sextet (x mod 4 * 16 + y div 16),
          sextet (y mod 16 * 4 + z div 64), sextet (z mod 64)] @ EncodeToString rest)"

text \<open>
  Errors are built as \<open>github.com/pkg/errors\<close> builds them: a new error from a message, or
  an error wrapped with a context message. A Go value of type \<open>error\<close> is an optional
  error of the model, \<open>nil\<close> being \<^const>\<open>None\<close>.
\<close>

datatype error = New string | Wrap error string

text \<open>
  Objects the sources only pass along (a \<open>context.Context\<close>, a clientset, a
  \<open>*cluster.Info\<close>) are identified by an address.
\<close>

type_synonym addr = nat

section \<open>Data model\<close>

text \<open>\<open>v1.Secret\<close>, with the members the sources read.\<close>

record Secret =
  ObjectMeta_Name :: string
  Data :: "string \<rightharpoonup> string"

text \<open>Reading a \<open>map[string][]byte\<close>: a missing key gives the nil slice, of length 0.\<close>

definition index_Data :: "(string \<rightharpoonup> string) \<Rightarrow> string \<Rightarrow> string" where
  "index_Data m k = (case m k of None \<Rightarrow> [] | Some v \<Rightarrow> v)"

text \<open>
  The options of the command line. Go's \<open>int\<close> and \<open>uint64\<close> are 64 bits wide; the sources
  only copy these numbers. A slice is \<^const>\<open>None\<close> when nil.
\<close>

record SubmarinerOptions =
  PreferredServer :: bool
  ForceUDPEncaps :: bool
  NATTraversal :: bool
  IPSecDebug :: bool
  SubmarinerDebug :: bool
  AirGappedDeployment :: bool
  LoadBalancerEnabled :: bool
  HealthCheckEnabled :: bool
  BrokerK8sInsecure :: bool
  NATTPort :: "64 word"
  HealthCheckInterval :: "64 word"
  HealthCheckMaxPacketLossCount :: "64 word"
  ClusterID :: string
  CableDriver :: string
  CoreDNSCustomConfigMap :: string
  Repository :: string
  ImageVersion :: string
  ServiceCIDR :: string
  ClusterCIDR :: string
  CustomDomains :: "string list option"

text \<open>
  \<open>broker.Info\<close> is declared in \<open>pkg/broker\<close>. The model keeps what the sources read of it:
  the broker URL, the pointer to the IPsec PSK secret, and the value its method
  \<open>IsServiceDiscoveryEnabled()\<close> returns.
\<close>

record Info =
  BrokerURL :: string
  IPSecPSK :: "Secret option"
  IsServiceDiscoveryEnabled :: bool

text \<open>\<open>globalnet.Config\<close> and \<open>image.RepositoryInfo\<close>, with the members the sources read.\<close>

record Config =
  GlobalCIDR :: string

record RepositoryInfo =
  Name :: string
  Version :: string
  Overrides :: "string \<rightharpoonup> string"

text \<open>
  The custom resource of the operator's API. \<open>SubmarinerSpec\<close> has the members the sources
  assign; a slice is \<^const>\<open>None\<close> when nil.
\<close>

record HealthCheckSpec =
  Enabled :: bool
  IntervalSeconds :: "64 word"
  MaxPacketLossCount :: "64 word"

record CoreDNSCustomConfig =
  ConfigMapName :: string
  Namespace :: string

record SubmarinerSpec =
  Repository :: string
  Version :: string
  CeIPSecNATTPort :: "64 word"
  CeIPSecDebug :: bool
  CeIPSecForceUDPEncaps :: bool
  CeIPSecPreferredServer :: bool
  CeIPSecPSK :: string
  CeIPSecPSKSecret :: string
  BrokerK8sCA :: string
  BrokerK8sRemoteNamespace :: string
  BrokerK8sApiServerToken :: string
  BrokerK8sApiServer :: string
  BrokerK8sSecret :: string
  BrokerK8sInsecure :: bool
  Broker :: string
  NatEnabled :: bool
  Debug :: bool
  ClusterID :: string
  ServiceCIDR :: string
  ClusterCIDR :: string
  Namespace :: string
  CableDriver :: string
  ServiceDiscoveryEnabled :: bool
  ImageOverrides :: "string \<rightharpoonup> string"
  AirGappedDeployment :: bool
  LoadBalancerEnabled :: bool
  ConnectionHealthCheck :: "HealthCheckSpec option"
  GlobalCIDR :: string
  CoreDNSCustomConfig :: "CoreDNSCustomConfig option"
  CustomDomains :: "string list option"

text \<open>\<open>len\<close> of a slice; the nil slice has length 0.\<close>

definition len :: "'a list option \<Rightarrow> nat" where
  "len xs = (case xs of None \<Rightarrow> 0 | Some l \<Rightarrow> length l)"

section \<open>The string helpers of the deploy package\<close>

definition removeSchemaPrefix :: "string \<Rightarrow> panic + string" where
  "removeSchemaPrefix brokerURL =
     (let idx = strings_Index brokerURL ''://'' in
      if idx \<ge> 0 then slice_from brokerURL (idx + 3) else Inr brokerURL)"

text \<open>
  The named results \<open>namespace\<close> and \<open>name\<close> start as the empty string; the pair returned is
  \<open>(namespace, name)\<close>.
\<close>

definition getCustomCoreDNSParams :: "string \<Rightarrow> string \<times> string" where
  "getCustomCoreDNSParams corednsCustomConfigMap =
     (if corednsCustomConfigMap \<noteq> [] then
        (let name = corednsCustomConfigMap;
             paramList = strings_Split corednsCustomConfigMap CHR ''/''
         in if length paramList > 1 then (paramList ! 0, paramList ! 1) else ([], name))
      else ([], []))"

section \<open>Assembling the custom resource\<close>

text \<open>
  \<open>populateSubmarinerSpec\<close>. Its pointer parameters may be nil, and the function reads
  through each of them (and through \<open>brokerInfo.IPSecPSK\<close>) without a check, so a nil pointer
  is a panic. \<open>constants.OperatorNamespace\<close> is declared in \<open>internal/constants\<close>; the model
  takes its value as the first argument. The composite literal leaves \<open>GlobalCIDR\<close>,
  \<open>CoreDNSCustomConfig\<close> and \<open>CustomDomains\<close> at their zero values; the three conditionals
  that follow assign them.
\<close>

definition populateSubmarinerSpec ::
  "string \<Rightarrow> SubmarinerOptions option \<Rightarrow> Info option \<Rightarrow> Secret option \<Rightarrow> Secret option
     \<Rightarrow> Config \<Rightarrow> RepositoryInfo option \<Rightarrow> panic + SubmarinerSpec" where
  "populateSubmarinerSpec OperatorNamespace options brokerInfo brokerSecret pskSecret netconfig
       repositoryInfo =
     (case brokerInfo of None \<Rightarrow> Inl NilPointerDereference | Some bi \<Rightarrow>
     (case removeSchemaPrefix (BrokerURL bi) of Inl p \<Rightarrow> Inl p | Inr brokerURL \<Rightarrow>
     (case repositoryInfo of None \<Rightarrow> Inl NilPointerDereference | Some ri \<Rightarrow>
     (case options of None \<Rightarrow> Inl NilPointerDereference | Some opts \<Rightarrow>
     (case IPSecPSK bi of None \<Rightarrow> Inl NilPointerDereference | Some psk \<Rightarrow>
     (case pskSecret of None \<Rightarrow> Inl NilPointerDereference | Some ps \<Rightarrow>
     (case brokerSecret of None \<Rightarrow> Inl NilPointerDereference | Some bs \<Rightarrow>
        (let submarinerSpec =
           \<lparr> SubmarinerSpec.Repository = RepositoryInfo.Name ri,
             SubmarinerSpec.Version = RepositoryInfo.Version ri,
             CeIPSecNATTPort = NATTPort opts,
             CeIPSecDebug = IPSecDebug opts,
             CeIPSecForceUDPEncaps = ForceUDPEncaps opts,
             CeIPSecPreferredServer = PreferredServer opts,
             CeIPSecPSK = EncodeToString (index_Data (Data psk) ''psk''),
             CeIPSecPSKSecret = ObjectMeta_Name ps,
             BrokerK8sCA = EncodeToString (index_Data (Data bs) ''ca.crt''),
             BrokerK8sRemoteNamespace = index_Data (Data bs) ''namespace'',
             BrokerK8sApiServerToken = index_Data (Data bs) ''token'',
             BrokerK8sApiServer = brokerURL,
             BrokerK8sSecret = ObjectMeta_Name bs,
             SubmarinerSpec.BrokerK8sInsecure = SubmarinerOptions.BrokerK8sInsecure opts,
             Broker = ''k8s'',
             NatEnabled = NATTraversal opts,
             Debug = SubmarinerDebug opts,
             SubmarinerSpec.ClusterID = SubmarinerOptions.ClusterID opts,
             SubmarinerSpec.ServiceCIDR = SubmarinerOptions.ServiceCIDR opts,
             SubmarinerSpec.ClusterCIDR = SubmarinerOptions.ClusterCIDR opts,
             SubmarinerSpec.Namespace = OperatorNamespace,
             SubmarinerSpec.CableDriver = SubmarinerOptions.CableDriver opts,
             ServiceDiscoveryEnabled = IsServiceDiscoveryEnabled bi,
             ImageOverrides = Overrides ri,
             SubmarinerSpec.AirGappedDeployment = SubmarinerOptions.AirGappedDeployment opts,
             SubmarinerSpec.LoadBalancerEnabled = SubmarinerOptions.LoadBalancerEnabled opts,
             ConnectionHealthCheck =
               Some \<lparr> Enabled = HealthCheckEnabled opts,
                      IntervalSeconds = HealthCheckInterval opts,
                      MaxPacketLossCount = HealthCheckMaxPacketLossCount opts \<rparr>,
             SubmarinerSpec.GlobalCIDR = [],
             SubmarinerSpec.CoreDNSCustomConfig = None,
             SubmarinerSpec.CustomDomains = None \<rparr>;
           submarinerSpec =
             (if Config.GlobalCIDR netconfig \<noteq> []
              then submarinerSpec\<lparr>SubmarinerSpec.GlobalCIDR := Config.GlobalCIDR netconfig\<rparr>
              else submarinerSpec);
           submarinerSpec =
             (if CoreDNSCustomConfigMap opts \<noteq> []
              then (let (namespace, name) = getCustomCoreDNSParams (CoreDNSCustomConfigMap opts)
                    in submarinerSpec\<lparr>SubmarinerSpec.CoreDNSCustomConfig :=
                         Some \<lparr> ConfigMapName = name,
                                CoreDNSCustomConfig.Namespace = namespace \<rparr>\<rparr>)
              else submarinerSpec);
           submarinerSpec =
             (if len (SubmarinerOptions.CustomDomains opts) > 0
              then submarinerSpec\<lparr>SubmarinerSpec.CustomDomains :=
                     SubmarinerOptions.CustomDomains opts\<rparr>
              else submarinerSpec)
         in Inr submarinerSpec))))))))"

section \<open>Calls into the cluster\<close>

text \<open>
  What the two entry points do, they do through calls into code outside the files at hand:
  \<open>secret.Ensure\<close>, \<open>submarinercr.Ensure\<close>, \<open>generic.RunOnCluster\<close>, and the methods of the
  interfaces \<open>reporter.Interface\<close> and \<open>api.GatewayDeployer\<close>. The state threaded through the
  model is the history of these calls, oldest first: each call the modelled code makes appends
  one entry there, with its arguments. The callees are assumed to return.
\<close>

text \<open>
  The interface \<open>reporter.Interface\<close>: an implementation decides what its method \<open>Error\<close>
  returns for an error and a message.
\<close>

record Reporter =
  Error_returns :: "error option \<Rightarrow> string \<Rightarrow> error option"

datatype call =
    is_SecretEnsure: SecretEnsure addr addr string "Secret option"
  | is_SubmarinerCREnsure: SubmarinerCREnsure addr addr string SubmarinerSpec
  | is_RunOnCluster: RunOnCluster addr
  | is_GatewayCleanup: GatewayCleanup Reporter
  | is_ReporterError: ReporterError "error option" string
  | is_ReporterEnd: ReporterEnd

type_synonym world = "call list"

text \<open>
  What \<open>secret.Ensure\<close> and \<open>submarinercr.Ensure\<close> return is up to the cluster: any function of
  the history so far and of the arguments. \<open>secret.Ensure\<close> returns either an error or the
  secret it ensured.
\<close>

record Cluster =
  secret_Ensure_returns :: "world \<Rightarrow> addr \<Rightarrow> addr \<Rightarrow> string \<Rightarrow> Secret option \<Rightarrow> error + Secret"
  submarinercr_Ensure_returns ::
    "world \<Rightarrow> addr \<Rightarrow> addr \<Rightarrow> string \<Rightarrow> SubmarinerSpec \<Rightarrow> error option"

definition secret_Ensure ::
  "Cluster \<Rightarrow> addr \<Rightarrow> addr \<Rightarrow> string \<Rightarrow> Secret option \<Rightarrow> world \<Rightarrow> (error + Secret) \<times> world" where
  "secret_Ensure cl ctx kubeClient namespace secret w =
     (secret_Ensure_returns cl w ctx kubeClient namespace secret,
      w @ [SecretEnsure ctx kubeClient namespace secret])"

definition submarinercr_Ensure ::
  "Cluster \<Rightarrow> addr \<Rightarrow> addr \<Rightarrow> string \<Rightarrow> SubmarinerSpec \<Rightarrow> world \<Rightarrow> error option \<times> world" where
  "submarinercr_Ensure cl ctx client namespace submarinerSpec w =
     (submarinercr_Ensure_returns cl w ctx client namespace submarinerSpec,
      w @ [SubmarinerCREnsure ctx client namespace submarinerSpec])"

text \<open>
  The interface \<open>client.Producer\<close>: the two clientsets its methods hand out.
\<close>

record Producer =
  ForKubernetes :: addr
  ForGeneral :: addr

text \<open>Reporting through \<open>status\<close>: each call of a method of the reporter is one entry.\<close>

definition status_Error ::
  "Reporter \<Rightarrow> error option \<Rightarrow> string \<Rightarrow> world \<Rightarrow> error option \<times> world" where
  "status_Error status err message w =
     (Error_returns status err message, w @ [ReporterError err message])"

definition status_End :: "Reporter \<Rightarrow> world \<Rightarrow> world" where
  "status_End status w = w @ [ReporterEnd]"

text \<open>
  \<open>wraps_with status message\<close>: called with a non-nil error and this message, the reporter
  returns the error wrapped with the message. It says nothing of what the reporter returns
  for any other message.
\<close>

definition wraps_with :: "Reporter \<Rightarrow> string \<Rightarrow> bool" where
  "wraps_with status message \<longleftrightarrow>
     (\<forall>e. Error_returns status (Some e) message = Some (Wrap e message))"

section \<open>Deploying Submariner\<close>

text \<open>
  \<open>Submariner\<close> returns an \<open>error\<close> (nil is \<^const>\<open>None\<close>) unless it panics. The argument
  \<open>brokerInfo.IPSecPSK\<close> of \<open>secret.Ensure\<close> is read before the call, so a nil \<open>brokerInfo\<close>
  panics with nothing done.
\<close>

definition Submariner ::
  "Cluster \<Rightarrow> string \<Rightarrow> addr \<Rightarrow> Producer \<Rightarrow> SubmarinerOptions option \<Rightarrow> Info option
     \<Rightarrow> Secret option \<Rightarrow> Config \<Rightarrow> RepositoryInfo option \<Rightarrow> Reporter \<Rightarrow> world
     \<Rightarrow> (panic + error option) \<times> world" where
  "Submariner cl OperatorNamespace ctx clientProducer options brokerInfo brokerSecret netconfig
       repositoryInfo status w =
     (case brokerInfo of None \<Rightarrow> (Inl NilPointerDereference, w) | Some bi \<Rightarrow>
     (case secret_Ensure cl ctx (ForKubernetes clientProducer) OperatorNamespace (IPSecPSK bi) w of
        (Inl err, w1) \<Rightarrow>
          (case status_Error status (Some err) ''Error creating PSK secret for cluster'' w1 of
             (ret, w2) \<Rightarrow> (Inr ret, w2))
      | (Inr pskSecret, w1) \<Rightarrow>
          (case populateSubmarinerSpec OperatorNamespace options brokerInfo brokerSecret
                  (Some pskSecret) netconfig repositoryInfo of
             Inl p \<Rightarrow> (Inl p, w1)
           | Inr submarinerSpec \<Rightarrow>
               (case submarinercr_Ensure cl ctx (ForGeneral clientProducer) OperatorNamespace
                       submarinerSpec w1 of
                  (Some err, w2) \<Rightarrow>
                    (case status_Error status (Some err) ''Submariner deployment failed'' w2 of
                       (ret, w3) \<Rightarrow> (Inr ret, w3))
                | (None, w2) \<Rightarrow> (Inr None, w2)))))"

section \<open>Cleaning up a generic cluster\<close>

text \<open>
  The interface \<open>api.GatewayDeployer\<close>: what its method \<open>Cleanup\<close> returns is up to the
  implementation, a function of the reporter it is handed and of the history so far. The
  entry of the call holds that reporter.
\<close>

record GatewayDeployer =
  Cleanup_returns :: "Reporter \<Rightarrow> world \<Rightarrow> error option"

definition gwDeployer_Cleanup ::
  "GatewayDeployer \<Rightarrow> Reporter \<Rightarrow> world \<Rightarrow> error option \<times> world" where
  "gwDeployer_Cleanup gwDeployer status w =
     (Cleanup_returns gwDeployer status w, w @ [GatewayCleanup status])"

text \<open>
  \<open>generic.RunOnCluster\<close> is declared in \<open>pkg/cloud/generic\<close>; \<open>GenericCluster\<close> takes it as
  its first argument: any function of the cluster information, the reporter, the callback and
  the history. The callback has a parameter \<open>status\<close> of its own, which hides the one of
  \<open>GenericCluster\<close>: it hands \<open>gwDeployer.Cleanup\<close> the reporter it is called with.
  \<open>GenericCluster\<close> defers \<open>status.End()\<close>, which so runs last, after the value to return has
  been computed.
\<close>

type_synonym callback = "GatewayDeployer \<Rightarrow> Reporter \<Rightarrow> world \<Rightarrow> error option \<times> world"

definition GenericCluster ::
  "(addr \<Rightarrow> Reporter \<Rightarrow> callback \<Rightarrow> world \<Rightarrow> error option \<times> world) \<Rightarrow> addr \<Rightarrow> Reporter \<Rightarrow> world
     \<Rightarrow> error option \<times> world" where
  "GenericCluster generic_RunOnCluster clusterInfo status w =
     (case generic_RunOnCluster clusterInfo status
             (\<lambda>gwDeployer status. gwDeployer_Cleanup gwDeployer status)
             (w @ [RunOnCluster clusterInfo]) of
        (err, w1) \<Rightarrow>
          (case status_Error status err ''Failed to cleanup generic K8s cluster'' w1 of
             (ret, w2) \<Rightarrow> (ret, status_End status w2)))"

section \<open>A deployment to run the model on\<close>

text \<open>
  The options, broker information and secrets of a cluster \<open>east\<close> joining a broker, and three
  clusters: one where both calls succeed, one that refuses to create the PSK secret, and one
  that refuses the custom resource.
\<close>

definition east_options :: SubmarinerOptions where
  "east_options =
     \<lparr> PreferredServer = False, ForceUDPEncaps = False, NATTraversal = True,
       IPSecDebug = False, SubmarinerDebug = True,
       SubmarinerOptions.AirGappedDeployment = False,
       SubmarinerOptions.LoadBalancerEnabled = True, HealthCheckEnabled = False,
       SubmarinerOptions.BrokerK8sInsecure = False,
       NATTPort = 4500, HealthCheckInterval = 1, HealthCheckMaxPacketLossCount = 5,
       SubmarinerOptions.ClusterID = ''east'',
       SubmarinerOptions.CableDriver = ''libreswan'',
       CoreDNSCustomConfigMap = ''kube-system/coredns-custom'',
       SubmarinerOptions.Repository = ''quay.io/submariner'', ImageVersion = ''0.14.0'',
       SubmarinerOptions.ServiceCIDR = ''100.94.0.0/16'',
       SubmarinerOptions.ClusterCIDR = ''10.244.0.0/16'',
       SubmarinerOptions.CustomDomains = Some [''clusterset.local''] \<rparr>"

definition east_psk :: Secret where
  "east_psk = \<lparr> ObjectMeta_Name = ''submariner-ipsec-psk'', Data = [''psk'' \<mapsto> ''key''] \<rparr>"

definition east_brokerInfo :: Info where
  "east_brokerInfo =
     \<lparr> BrokerURL = ''https://broker.example.com'', IPSecPSK = Some east_psk,
       IsServiceDiscoveryEnabled = True \<rparr>"

definition east_brokerSecret :: Secret where
  "east_brokerSecret =
     \<lparr> ObjectMeta_Name = ''east-token'',
       Data = [''ca.crt'' \<mapsto> ''ca'', ''namespace'' \<mapsto> ''submariner-k8s-broker'',
               ''token'' \<mapsto> ''t0k3n''] \<rparr>"

definition east_netconfig :: Config where
  "east_netconfig = \<lparr> Config.GlobalCIDR = ''242.0.0.0/16'' \<rparr>"

definition east_repositoryInfo :: RepositoryInfo where
  "east_repositoryInfo =
     \<lparr> Name = ''quay.io/submariner'', RepositoryInfo.Version = ''0.14.0'',
       Overrides = Map.empty \<rparr>"

text \<open>
  Two reporters. The first wraps a non-nil error with a non-empty message, returns it as it is
  for the empty message, and returns nil for nil. The second is the reporter of a progress
  display, another value of the interface.
\<close>

definition wrapping_reporter :: Reporter where
  "wrapping_reporter =
     \<lparr> Error_returns =
         (\<lambda>err message. if message = [] then err else map_option (\<lambda>e. Wrap e message) err) \<rparr>"

definition silent_reporter :: Reporter where
  "silent_reporter = \<lparr> Error_returns = (\<lambda>err message. err) \<rparr>"

definition east_producer :: Producer where
  "east_producer = \<lparr> ForKubernetes = 1, ForGeneral = 2 \<rparr>"


definition forbidden_cluster :: Cluster where
  "forbidden_cluster =
     \<lparr> secret_Ensure_returns =
         (\<lambda>w ctx kubeClient namespace secret. Inl (New ''secrets is forbidden'')),
       submarinercr_Ensure_returns = (\<lambda>w ctx client namespace submarinerSpec. None) \<rparr>"


section \<open>Facts about the library functions\<close>

lemma strings_Index_occurs:
  "0 \<le> strings_Index s substr \<Longrightarrow>
     nat (strings_Index s substr) + length substr \<le> length s \<and>
     take (length substr) (drop (nat (strings_Index s substr)) s) = substr"
proof (induction s)
  case Nil
  then show ?case by (simp split: if_splits)
next
  case (Cons c s)
  show ?case
  proof (cases "take (length substr) (c # s) = substr")
    case True
    from True have "length (take (length substr) (c # s)) = length substr"
      by simp
    then have "length substr \<le> length (c # s)"
      by (simp add: min_def split: if_splits)
    with True show ?thesis by simp
  next
    case False
    with Cons.prems have nn: "0 \<le> strings_Index s substr"
      by (simp add: Let_def split: if_splits)
    with False have eq: "strings_Index (c # s) substr = strings_Index s substr + 1"
      by (simp add: Let_def)
    have "nat (strings_Index s substr + 1) = Suc (nat (strings_Index s substr))"
      using nn by simp
    with Cons.IH [OF nn] eq show ?thesis by simp
  qed
qed

lemma strings_Index_found:
  assumes "0 \<le> strings_Index s substr"
  shows "s = take (nat (strings_Index s substr)) s @ substr
           @ drop (nat (strings_Index s substr) + length substr) s"
proof -
  let ?i = "nat (strings_Index s substr)"
  have "drop ?i s = take (length substr) (drop ?i s) @ drop (length substr) (drop ?i s)"
    by (rule append_take_drop_id [symmetric])
  also have "\<dots> = substr @ drop (?i + length substr) s"
    using strings_Index_occurs [OF assms] by (simp add: add.commute)
  finally have "take ?i s @ drop ?i s = take ?i s @ substr @ drop (?i + length substr) s"
    by simp
  then show ?thesis by simp
qed

text \<open>The slice \<open>s[idx+len(substr):]\<close> after a found index is always within bounds.\<close>

lemma strings_Index_in_bounds:
  assumes "0 \<le> strings_Index s substr"
  shows "strings_Index s substr + int (length substr) \<le> int (length s)"
  using strings_Index_occurs [OF assms] assms by linarith

lemma strings_Index_prefix: "strings_Index (substr @ q) substr = 0"
proof (cases "substr @ q")
  case Nil
  then show ?thesis by simp
next
  case (Cons c r)
  have "take (length substr) (substr @ q) = substr" by simp
  with Cons show ?thesis by simp
qed

text \<open>No occurrence starts before the index returned.\<close>

lemma strings_Index_first:
  "0 \<le> strings_Index (p @ substr @ q) substr \<and>
   strings_Index (p @ substr @ q) substr \<le> int (length p)"
proof (induction p)
  case Nil
  then show ?case by (simp add: strings_Index_prefix)
next
  case (Cons c p)
  then show ?case by (auto simp: Let_def)
qed

lemma contains_iff_Index:
  "(\<exists>p q. s = p @ substr @ q) \<longleftrightarrow> 0 \<le> strings_Index s substr"
proof
  assume "\<exists>p q. s = p @ substr @ q"
  then show "0 \<le> strings_Index s substr" using strings_Index_first by blast
next
  assume "0 \<le> strings_Index s substr"
  from strings_Index_found [OF this] show "\<exists>p q. s = p @ substr @ q" by blast
qed

lemma strings_Index_byte_absent: "c \<notin> set s \<Longrightarrow> strings_Index s [c] = - 1"
  by (induction s) auto

lemma strings_Index_byte_first:
  "c \<notin> set a \<Longrightarrow> strings_Index (a @ c # r) [c] = int (length a)"
  by (induction a) auto

lemma strings_Split_no_sep: "c \<notin> set s \<Longrightarrow> strings_Split s c = [s]"
  by (subst strings_Split.simps) (simp add: strings_Index_byte_absent)

lemma strings_Split_at_sep:
  "c \<notin> set a \<Longrightarrow> strings_Split (a @ c # r) c = a # strings_Split r c"
  by (subst strings_Split.simps) (simp add: strings_Index_byte_first)

lemma strings_Split_nonempty: "strings_Split s c \<noteq> []"
  by (subst strings_Split.simps) simp

lemma first_separator:
  assumes "1 \<le> count_list s c"
  shows "\<exists>a r. s = a @ c # r \<and> c \<notin> set a \<and> count_list r c = count_list s c - 1"
proof -
  from assms have "c \<in> set s"
    by (metis count_list_0_iff not_one_le_zero)
  then obtain a r where s: "s = a @ c # r" and a: "c \<notin> set a"
    by (auto dest: split_list_first)
  from a have "count_list a c = 0" by (simp add: count_list_0_iff)
  with s have "count_list r c = count_list s c - 1" by simp
  with s a show ?thesis by blast
qed

section \<open>The string helpers\<close>

lemma removeSchemaPrefix_found:
  assumes "0 \<le> strings_Index s ''://''"
  shows "removeSchemaPrefix s = Inr (drop (nat (strings_Index s ''://'') + 3) s)"
proof -
  have "strings_Index s ''://'' + 3 \<le> int (length s)"
    using strings_Index_in_bounds [OF assms] by simp
  moreover have "nat (strings_Index s ''://'' + 3) = nat (strings_Index s ''://'') + 3"
    using assms by simp
  ultimately show ?thesis using assms
    by (simp add: removeSchemaPrefix_def slice_from_def Let_def)
qed

text \<open>\<open>removeSchemaPrefix\<close> never panics: it returns a string for every input.\<close>

lemma removeSchemaPrefix_returns: "\<exists>r. removeSchemaPrefix s = Inr r"
proof (cases "0 \<le> strings_Index s ''://''")
  case True
  then show ?thesis by (simp add: removeSchemaPrefix_found)
next
  case False
  then show ?thesis by (simp add: removeSchemaPrefix_def Let_def)
qed

text \<open>
  C1. If \<open>s\<close> contains \<open>"://"\<close>, that is \<open>s = p @ "://" @ q\<close>, and this is the first occurrence
  (no decomposition of \<open>s\<close> around \<open>"://"\<close> has a shorter part before it), then
  \<open>removeSchemaPrefix s\<close> returns \<open>q\<close>, the suffix after it. If \<open>s\<close> does not contain \<open>"://"\<close>,
  \<open>removeSchemaPrefix s\<close> returns \<open>s\<close>. For \<open>"https://broker.example.com"\<close> it returns
  \<open>"broker.example.com"\<close>.
\<close>

theorem removeSchemaPrefix_spec:
  "(s = p @ ''://'' @ q \<and> (\<forall>p' q'. s = p' @ ''://'' @ q' \<longrightarrow> length p \<le> length p')
      \<longrightarrow> removeSchemaPrefix s = Inr q)
   \<and> ((\<nexists>p q. s = p @ ''://'' @ q) \<longrightarrow> removeSchemaPrefix s = Inr s)
   \<and> removeSchemaPrefix ''https://broker.example.com'' = Inr ''broker.example.com''"
proof (intro conjI impI)
  assume a: "s = p @ ''://'' @ q \<and> (\<forall>p' q'. s = p' @ ''://'' @ q' \<longrightarrow> length p \<le> length p')"
  let ?i = "strings_Index s ''://''"
  from a have nn: "0 \<le> ?i" and le: "?i \<le> int (length p)"
    using strings_Index_first [of p "''://''" q] by simp_all
  from strings_Index_found [OF nn] a have "length p \<le> length (take (nat ?i) s)"
    by blast
  also have "\<dots> \<le> nat ?i" by simp
  finally have "nat ?i = length p" using le nn by linarith
  with removeSchemaPrefix_found [OF nn] a show "removeSchemaPrefix s = Inr q" by simp
next
  assume "\<nexists>p q. s = p @ ''://'' @ q"
  then have "\<not> 0 \<le> strings_Index s ''://''" using contains_iff_Index by blast
  then show "removeSchemaPrefix s = Inr s" by (simp add: removeSchemaPrefix_def Let_def)
next
  show "removeSchemaPrefix ''https://broker.example.com'' = Inr ''broker.example.com''"
    by (simp add: removeSchemaPrefix_def slice_from_def)
qed

theorem removeSchemaPrefix_spec_witness:
  "removeSchemaPrefix ''a://b://c'' = Inr ''b://c'' \<and> removeSchemaPrefix ''a:/b'' = Inr ''a:/b''"
proof -
  have first: "\<forall>p' q'. ''a://b://c'' = p' @ ''://'' @ q' \<longrightarrow> length ''a'' \<le> length p'"
    by (auto simp: Cons_eq_append_conv)
  have "\<not> 0 \<le> strings_Index ''a:/b'' ''://''"
    by simp
  then have absent: "\<nexists>p q. ''a:/b'' = p @ ''://'' @ q"
    unfolding contains_iff_Index .
  show ?thesis
    using removeSchemaPrefix_spec [of "''a://b://c''" "''a''" "''b://c''"] first
      removeSchemaPrefix_spec [of "''a:/b''"] absent
    by simp
qed

lemma getCustomCoreDNSParams_two:
  assumes "CHR ''/'' \<notin> set a"
  shows "getCustomCoreDNSParams (a @ CHR ''/'' # r) = (a, hd (strings_Split r CHR ''/''))"
proof -
  obtain x xs where "strings_Split r CHR ''/'' = x # xs"
    using strings_Split_nonempty by (cases "strings_Split r CHR ''/''") auto
  then show ?thesis using assms
    by (simp add: getCustomCoreDNSParams_def strings_Split_at_sep)
qed

text \<open>
  C2. \<open>getCustomCoreDNSParams "ns/name"\<close> is the pair of namespace \<open>"ns"\<close> and name \<open>"name"\<close>,
  and so for every namespace and name that hold no \<open>"/"\<close>; for a non-empty input without
  \<open>"/"\<close> the namespace is empty and the name is the input; for the empty string both are
  empty.
\<close>

theorem getCustomCoreDNSParams_spec:
  "getCustomCoreDNSParams ''ns/name'' = (''ns'', ''name'')
   \<and> (CHR ''/'' \<notin> set ns \<and> CHR ''/'' \<notin> set nm
        \<longrightarrow> getCustomCoreDNSParams (ns @ ''/'' @ nm) = (ns, nm))
   \<and> (s \<noteq> [] \<and> CHR ''/'' \<notin> set s \<longrightarrow> getCustomCoreDNSParams s = ([], s))
   \<and> getCustomCoreDNSParams [] = ([], [])"
proof (intro conjI impI)
  show "getCustomCoreDNSParams ''ns/name'' = (''ns'', ''name'')"
    by (simp add: getCustomCoreDNSParams_def strings_Split.simps)
next
  assume "CHR ''/'' \<notin> set ns \<and> CHR ''/'' \<notin> set nm"
  then show "getCustomCoreDNSParams (ns @ ''/'' @ nm) = (ns, nm)"
    by (simp add: getCustomCoreDNSParams_two strings_Split_no_sep)
next
  assume "s \<noteq> [] \<and> CHR ''/'' \<notin> set s"
  then show "getCustomCoreDNSParams s = ([], s)"
    by (simp add: getCustomCoreDNSParams_def strings_Split_no_sep)
next
  show "getCustomCoreDNSParams [] = ([], [])"
    by (simp add: getCustomCoreDNSParams_def)
qed

theorem getCustomCoreDNSParams_spec_witness:
  "getCustomCoreDNSParams ''kube-system/coredns-custom'' = (''kube-system'', ''coredns-custom'')
   \<and> getCustomCoreDNSParams ''coredns-custom'' = ([], ''coredns-custom'')"
proof -
  have a: "CHR ''/'' \<notin> set ''kube-system'' \<and> CHR ''/'' \<notin> set ''coredns-custom''" by simp
  have b: "''coredns-custom'' \<noteq> [] \<and> CHR ''/'' \<notin> set ''coredns-custom''" by simp
  from getCustomCoreDNSParams_spec [of "''kube-system''" "''coredns-custom''" "''coredns-custom''"] a b
  show ?thesis by simp
qed

text \<open>
  C10. An input with two or more \<open>"/"\<close> is \<open>a @ "/" @ b @ "/" @ rest\<close> with no \<open>"/"\<close> in its
  first component \<open>a\<close> nor in its second component \<open>b\<close>, and \<open>getCustomCoreDNSParams\<close> returns
  the namespace \<open>a\<close> and the name \<open>b\<close>: \<open>rest\<close> is dropped.
\<close>

theorem getCustomCoreDNSParams_extra_components:
  "2 \<le> count_list s CHR ''/'' \<Longrightarrow>
     \<exists>a b rest. s = a @ ''/'' @ b @ ''/'' @ rest
        \<and> CHR ''/'' \<notin> set a \<and> CHR ''/'' \<notin> set b
        \<and> getCustomCoreDNSParams s = (a, b)"
proof -
  assume two: "2 \<le> count_list s CHR ''/''"
  then obtain a r where s: "s = a @ CHR ''/'' # r" and a: "CHR ''/'' \<notin> set a"
      and r: "count_list r CHR ''/'' = count_list s CHR ''/'' - 1"
    using first_separator [of s "CHR ''/''"] by auto
  from two r have "1 \<le> count_list r CHR ''/''" by simp
  then obtain b rest where r': "r = b @ CHR ''/'' # rest" and b: "CHR ''/'' \<notin> set b"
    using first_separator [of r "CHR ''/''"] by auto
  from a have "getCustomCoreDNSParams s = (a, hd (strings_Split r CHR ''/''))"
    unfolding s by (rule getCustomCoreDNSParams_two)
  also have "hd (strings_Split r CHR ''/'') = b"
    unfolding r' using b by (simp add: strings_Split_at_sep)
  finally have "getCustomCoreDNSParams s = (a, b)" .
  moreover have "s = a @ ''/'' @ b @ ''/'' @ rest" using s r' by simp
  ultimately show ?thesis using a b by blast
qed

theorem getCustomCoreDNSParams_extra_components_witness:
  "\<exists>a b rest. ''a/b/c'' = a @ ''/'' @ b @ ''/'' @ rest
        \<and> CHR ''/'' \<notin> set a \<and> CHR ''/'' \<notin> set b
        \<and> getCustomCoreDNSParams ''a/b/c'' = (a, b)"
proof -
  have "2 \<le> count_list ''a/b/c'' CHR ''/''" by simp
  then show ?thesis by (rule getCustomCoreDNSParams_extra_components)
qed

section \<open>The custom resource assembled\<close>


lemma populateSubmarinerSpec_nil:
  "populateSubmarinerSpec ns options brokerInfo brokerSecret pskSecret netconfig repositoryInfo
     = Inr spec \<Longrightarrow>
   options \<noteq> None \<and> brokerInfo \<noteq> None \<and> (\<exists>bi. brokerInfo = Some bi \<and> IPSecPSK bi \<noteq> None)
   \<and> brokerSecret \<noteq> None \<and> pskSecret \<noteq> None \<and> repositoryInfo \<noteq> None"
  by (auto simp: populateSubmarinerSpec_def split: option.splits sum.splits)

text \<open>
  C4. For non-nil arguments \<open>populateSubmarinerSpec\<close> returns a spec whose \<open>ClusterID\<close>,
  \<open>ServiceCIDR\<close>, \<open>ClusterCIDR\<close>, \<open>CableDriver\<close>, \<open>AirGappedDeployment\<close>,
  \<open>LoadBalancerEnabled\<close> and \<open>BrokerK8sInsecure\<close> are the options' members of the same name,
  whose \<open>CeIPSecNATTPort\<close> is \<open>options.NATTPort\<close>, \<open>NatEnabled\<close> is \<open>options.NATTraversal\<close>,
  \<open>Debug\<close> is \<open>options.SubmarinerDebug\<close>, and whose \<open>BrokerK8sApiServer\<close> is what
  \<open>removeSchemaPrefix\<close> returns for \<open>brokerInfo.BrokerURL\<close>.
\<close>

theorem populateSubmarinerSpec_fields:
  assumes "IPSecPSK brokerInfo \<noteq> None"
  shows "\<exists>spec. populateSubmarinerSpec ns (Some options) (Some brokerInfo) (Some brokerSecret)
            (Some pskSecret) netconfig (Some repositoryInfo) = Inr spec
     \<and> SubmarinerSpec.ClusterID spec = SubmarinerOptions.ClusterID options
     \<and> SubmarinerSpec.ServiceCIDR spec = SubmarinerOptions.ServiceCIDR options
     \<and> SubmarinerSpec.ClusterCIDR spec = SubmarinerOptions.ClusterCIDR options
     \<and> SubmarinerSpec.CableDriver spec = SubmarinerOptions.CableDriver options
     \<and> CeIPSecNATTPort spec = NATTPort options
     \<and> NatEnabled spec = NATTraversal options
     \<and> Debug spec = SubmarinerDebug options
     \<and> SubmarinerSpec.AirGappedDeployment spec = SubmarinerOptions.AirGappedDeployment options
     \<and> SubmarinerSpec.LoadBalancerEnabled spec = SubmarinerOptions.LoadBalancerEnabled options
     \<and> SubmarinerSpec.BrokerK8sInsecure spec = SubmarinerOptions.BrokerK8sInsecure options
     \<and> removeSchemaPrefix (BrokerURL brokerInfo) = Inr (BrokerK8sApiServer spec)"
proof -
  from assms obtain psk where psk: "IPSecPSK brokerInfo = Some psk" by blast
  obtain url where url: "removeSchemaPrefix (BrokerURL brokerInfo) = Inr url"
    using removeSchemaPrefix_returns by blast
  show ?thesis
    by (simp add: populateSubmarinerSpec_def psk url Let_def split: prod.splits)
qed

theorem populateSubmarinerSpec_fields_witness:
  "\<exists>spec. populateSubmarinerSpec ''submariner-operator'' (Some east_options)
            (Some east_brokerInfo) (Some east_brokerSecret) (Some east_psk) east_netconfig
            (Some east_repositoryInfo) = Inr spec
     \<and> SubmarinerSpec.ClusterID spec = ''east''
     \<and> CeIPSecNATTPort spec = 4500
     \<and> BrokerK8sApiServer spec = ''broker.example.com''"
proof -
  have "IPSecPSK east_brokerInfo \<noteq> None" by (simp add: east_brokerInfo_def)
  from populateSubmarinerSpec_fields [OF this, of "''submariner-operator''" east_options
      east_brokerSecret east_psk east_netconfig east_repositoryInfo]
  show ?thesis
    by (auto simp: east_options_def east_brokerInfo_def removeSchemaPrefix_def slice_from_def)
qed

text \<open>
  C8. For non-nil arguments the spec returned has \<open>Broker = "k8s"\<close>, the operator namespace as
  its \<open>Namespace\<close>, and a non-nil \<open>ConnectionHealthCheck\<close> holding
  \<open>options.HealthCheckEnabled\<close>, \<open>options.HealthCheckInterval\<close> and
  \<open>options.HealthCheckMaxPacketLossCount\<close>, whatever \<open>HealthCheckEnabled\<close> is.
\<close>

theorem populateSubmarinerSpec_fixed:
  assumes "IPSecPSK brokerInfo \<noteq> None"
  shows "\<exists>spec. populateSubmarinerSpec ns (Some options) (Some brokerInfo) (Some brokerSecret)
            (Some pskSecret) netconfig (Some repositoryInfo) = Inr spec
     \<and> Broker spec = ''k8s''
     \<and> SubmarinerSpec.Namespace spec = ns
     \<and> ConnectionHealthCheck spec \<noteq> None
     \<and> ConnectionHealthCheck spec =
          Some \<lparr> Enabled = HealthCheckEnabled options,
                 IntervalSeconds = HealthCheckInterval options,
                 MaxPacketLossCount = HealthCheckMaxPacketLossCount options \<rparr>"
proof -
  from assms obtain psk where psk: "IPSecPSK brokerInfo = Some psk" by blast
  obtain url where url: "removeSchemaPrefix (BrokerURL brokerInfo) = Inr url"
    using removeSchemaPrefix_returns by blast
  show ?thesis
    by (simp add: populateSubmarinerSpec_def psk url Let_def split: prod.splits)
qed

theorem populateSubmarinerSpec_fixed_witness:
  "\<not> HealthCheckEnabled east_options \<and>
   (\<exists>spec. populateSubmarinerSpec ''submariner-operator'' (Some east_options)
            (Some east_brokerInfo) (Some east_brokerSecret) (Some east_psk) east_netconfig
            (Some east_repositoryInfo) = Inr spec
     \<and> Broker spec = ''k8s''
     \<and> SubmarinerSpec.Namespace spec = ''submariner-operator''
     \<and> ConnectionHealthCheck spec =
          Some \<lparr> Enabled = False, IntervalSeconds = 1, MaxPacketLossCount = 5 \<rparr>)"
proof -
  have "IPSecPSK east_brokerInfo \<noteq> None" by (simp add: east_brokerInfo_def)
  from populateSubmarinerSpec_fixed [OF this, of "''submariner-operator''" east_options
      east_brokerSecret east_psk east_netconfig east_repositoryInfo]
  show ?thesis
    by (auto simp: east_options_def)
qed

text \<open>
  C9. For non-nil arguments the spec returned has \<open>GlobalCIDR\<close> equal to
  \<open>netconfig.GlobalCIDR\<close> when that is non-empty and empty otherwise; its
  \<open>CoreDNSCustomConfig\<close> is non-nil exactly when \<open>options.CoreDNSCustomConfigMap\<close> is
  non-empty, and then holds the namespace and name \<open>getCustomCoreDNSParams\<close> returns; its
  \<open>CustomDomains\<close> is non-nil exactly when \<open>options.CustomDomains\<close> has an element, and
  then equals it.
\<close>

theorem populateSubmarinerSpec_optional:
  assumes "IPSecPSK brokerInfo \<noteq> None"
  shows "\<exists>spec. populateSubmarinerSpec ns (Some options) (Some brokerInfo) (Some brokerSecret)
            (Some pskSecret) netconfig (Some repositoryInfo) = Inr spec
     \<and> (Config.GlobalCIDR netconfig \<noteq> []
          \<longrightarrow> SubmarinerSpec.GlobalCIDR spec = Config.GlobalCIDR netconfig)
     \<and> (Config.GlobalCIDR netconfig = [] \<longrightarrow> SubmarinerSpec.GlobalCIDR spec = [])
     \<and> (SubmarinerSpec.CoreDNSCustomConfig spec \<noteq> None
          \<longleftrightarrow> CoreDNSCustomConfigMap options \<noteq> [])
     \<and> (CoreDNSCustomConfigMap options \<noteq> []
          \<longrightarrow> SubmarinerSpec.CoreDNSCustomConfig spec =
                Some \<lparr> ConfigMapName = snd (getCustomCoreDNSParams (CoreDNSCustomConfigMap options)),
                       CoreDNSCustomConfig.Namespace =
                         fst (getCustomCoreDNSParams (CoreDNSCustomConfigMap options)) \<rparr>)
     \<and> (SubmarinerSpec.CustomDomains spec \<noteq> None
          \<longleftrightarrow> 0 < len (SubmarinerOptions.CustomDomains options))
     \<and> (0 < len (SubmarinerOptions.CustomDomains options)
          \<longrightarrow> SubmarinerSpec.CustomDomains spec = SubmarinerOptions.CustomDomains options)"
proof -
  from assms obtain psk where psk: "IPSecPSK brokerInfo = Some psk" by blast
  obtain url where url: "removeSchemaPrefix (BrokerURL brokerInfo) = Inr url"
    using removeSchemaPrefix_returns by blast
  have nil: "len (SubmarinerOptions.CustomDomains options) > 0
               \<Longrightarrow> SubmarinerOptions.CustomDomains options \<noteq> None"
    by (cases "SubmarinerOptions.CustomDomains options") (simp_all add: len_def)
  show ?thesis using nil
    by (auto simp: populateSubmarinerSpec_def psk url Let_def split: prod.splits)
qed

theorem populateSubmarinerSpec_optional_witness:
  "(\<exists>spec. populateSubmarinerSpec ''submariner-operator'' (Some east_options)
            (Some east_brokerInfo) (Some east_brokerSecret) (Some east_psk) east_netconfig
            (Some east_repositoryInfo) = Inr spec
      \<and> SubmarinerSpec.GlobalCIDR spec = ''242.0.0.0/16''
      \<and> SubmarinerSpec.CoreDNSCustomConfig spec =
           Some \<lparr> ConfigMapName = ''coredns-custom'',
                  CoreDNSCustomConfig.Namespace = ''kube-system'' \<rparr>
      \<and> SubmarinerSpec.CustomDomains spec = Some [''clusterset.local''])
   \<and> (\<exists>spec. populateSubmarinerSpec ''submariner-operator''
            (Some (east_options\<lparr>CoreDNSCustomConfigMap := [],
                                 SubmarinerOptions.CustomDomains := Some []\<rparr>))
            (Some east_brokerInfo) (Some east_brokerSecret) (Some east_psk)
            \<lparr>Config.GlobalCIDR = []\<rparr> (Some east_repositoryInfo) = Inr spec
      \<and> SubmarinerSpec.GlobalCIDR spec = []
      \<and> SubmarinerSpec.CoreDNSCustomConfig spec = None
      \<and> SubmarinerSpec.CustomDomains spec = None)"
proof -
  have psk: "IPSecPSK east_brokerInfo \<noteq> None" by (simp add: east_brokerInfo_def)
  have params: "getCustomCoreDNSParams ''kube-system/coredns-custom''
                  = (''kube-system'', ''coredns-custom'')"
    by (simp add: getCustomCoreDNSParams_def strings_Split.simps)
  from populateSubmarinerSpec_optional [OF psk, of "''submariner-operator''" east_options
      east_brokerSecret east_psk east_netconfig east_repositoryInfo]
  have full: "\<exists>spec. populateSubmarinerSpec ''submariner-operator'' (Some east_options)
            (Some east_brokerInfo) (Some east_brokerSecret) (Some east_psk) east_netconfig
            (Some east_repositoryInfo) = Inr spec
      \<and> SubmarinerSpec.GlobalCIDR spec = ''242.0.0.0/16''
      \<and> SubmarinerSpec.CoreDNSCustomConfig spec =
           Some \<lparr> ConfigMapName = ''coredns-custom'',
                  CoreDNSCustomConfig.Namespace = ''kube-system'' \<rparr>
      \<and> SubmarinerSpec.CustomDomains spec = Some [''clusterset.local'']"
    by (auto simp: east_options_def east_netconfig_def len_def params)
  from populateSubmarinerSpec_optional [OF psk, of "''submariner-operator''"
      "east_options\<lparr>CoreDNSCustomConfigMap := [], SubmarinerOptions.CustomDomains := Some []\<rparr>"
      east_brokerSecret east_psk "\<lparr>Config.GlobalCIDR = []\<rparr>" east_repositoryInfo]
  have bare: "\<exists>spec. populateSubmarinerSpec ''submariner-operator''
            (Some (east_options\<lparr>CoreDNSCustomConfigMap := [],
                                 SubmarinerOptions.CustomDomains := Some []\<rparr>))
            (Some east_brokerInfo) (Some east_brokerSecret) (Some east_psk)
            \<lparr>Config.GlobalCIDR = []\<rparr> (Some east_repositoryInfo) = Inr spec
      \<and> SubmarinerSpec.GlobalCIDR spec = []
      \<and> SubmarinerSpec.CoreDNSCustomConfig spec = None
      \<and> SubmarinerSpec.CustomDomains spec = None"
    by (auto simp: len_def)
  from full bare show ?thesis by blast
qed

section \<open>Deploying Submariner: what is returned and what is called\<close>

text \<open>The five ways a run of \<open>Submariner\<close> can go, each with the calls it makes.\<close>

lemma Submariner_nil_brokerInfo:
  "Submariner cl ns ctx cp options None brokerSecret netconfig repositoryInfo status w
     = (Inl NilPointerDereference, w)"
  by (simp add: Submariner_def)

lemma Submariner_psk_fails:
  assumes "secret_Ensure_returns cl w ctx (ForKubernetes cp) ns (IPSecPSK bi) = Inl e"
  shows "Submariner cl ns ctx cp options (Some bi) brokerSecret netconfig repositoryInfo status w
     = (Inr (Error_returns status (Some e) ''Error creating PSK secret for cluster''),
        w @ [SecretEnsure ctx (ForKubernetes cp) ns (IPSecPSK bi),
             ReporterError (Some e) ''Error creating PSK secret for cluster''])"
  using assms by (simp add: Submariner_def secret_Ensure_def status_Error_def)

lemma Submariner_populate_panics:
  assumes "secret_Ensure_returns cl w ctx (ForKubernetes cp) ns (IPSecPSK bi) = Inr ps"
    and "populateSubmarinerSpec ns options (Some bi) brokerSecret (Some ps) netconfig
           repositoryInfo = Inl p"
  shows "Submariner cl ns ctx cp options (Some bi) brokerSecret netconfig repositoryInfo status w
     = (Inl p, w @ [SecretEnsure ctx (ForKubernetes cp) ns (IPSecPSK bi)])"
  using assms by (simp add: Submariner_def secret_Ensure_def)

lemma Submariner_cr_fails:
  assumes "secret_Ensure_returns cl w ctx (ForKubernetes cp) ns (IPSecPSK bi) = Inr ps"
    and "populateSubmarinerSpec ns options (Some bi) brokerSecret (Some ps) netconfig
           repositoryInfo = Inr spec"
    and "submarinercr_Ensure_returns cl
           (w @ [SecretEnsure ctx (ForKubernetes cp) ns (IPSecPSK bi)])
           ctx (ForGeneral cp) ns spec = Some e"
  shows "Submariner cl ns ctx cp options (Some bi) brokerSecret netconfig repositoryInfo status w
     = (Inr (Error_returns status (Some e) ''Submariner deployment failed''),
        w @ [SecretEnsure ctx (ForKubernetes cp) ns (IPSecPSK bi),
             SubmarinerCREnsure ctx (ForGeneral cp) ns spec,
             ReporterError (Some e) ''Submariner deployment failed''])"
  using assms
  by (simp add: Submariner_def secret_Ensure_def submarinercr_Ensure_def status_Error_def)

lemma Submariner_succeeds:
  assumes "secret_Ensure_returns cl w ctx (ForKubernetes cp) ns (IPSecPSK bi) = Inr ps"
    and "populateSubmarinerSpec ns options (Some bi) brokerSecret (Some ps) netconfig
           repositoryInfo = Inr spec"
    and "submarinercr_Ensure_returns cl
           (w @ [SecretEnsure ctx (ForKubernetes cp) ns (IPSecPSK bi)])
           ctx (ForGeneral cp) ns spec = None"
  shows "Submariner cl ns ctx cp options (Some bi) brokerSecret netconfig repositoryInfo status w
     = (Inr None,
        w @ [SecretEnsure ctx (ForKubernetes cp) ns (IPSecPSK bi),
             SubmarinerCREnsure ctx (ForGeneral cp) ns spec])"
  using assms
  by (simp add: Submariner_def secret_Ensure_def submarinercr_Ensure_def)



text \<open>
  C7. Whatever the arguments and the cluster, the calls a run of \<open>Submariner\<close> adds to the
  history hold at most one \<open>secret.Ensure\<close> and at most one \<open>submarinercr.Ensure\<close>; when
  \<open>secret.Ensure\<close> fails they are that call and the report of its error, with no
  \<open>submarinercr.Ensure\<close>.
\<close>

theorem Submariner_no_retry:
  "\<exists>t. snd (Submariner cl ns ctx cp options brokerInfo brokerSecret netconfig repositoryInfo
              status w) = w @ t
     \<and> length (filter is_SecretEnsure t) \<le> 1
     \<and> length (filter is_SubmarinerCREnsure t) \<le> 1
     \<and> (\<forall>bi e. brokerInfo = Some bi
            \<and> secret_Ensure_returns cl w ctx (ForKubernetes cp) ns (IPSecPSK bi) = Inl e
          \<longrightarrow> filter is_SubmarinerCREnsure t = []
            \<and> t = [SecretEnsure ctx (ForKubernetes cp) ns (IPSecPSK bi),
                   ReporterError (Some e) ''Error creating PSK secret for cluster''])"
proof (cases brokerInfo)
  case None
  then show ?thesis by (simp add: Submariner_nil_brokerInfo)
next
  case (Some bi)
  show ?thesis
  proof (cases "secret_Ensure_returns cl w ctx (ForKubernetes cp) ns (IPSecPSK bi)")
    case (Inl e)
    from Submariner_psk_fails [OF Inl] Some Inl show ?thesis by simp
  next
    case (Inr ps)
    show ?thesis
    proof (cases "populateSubmarinerSpec ns options (Some bi) brokerSecret (Some ps) netconfig
                    repositoryInfo")
      case (Inl p)
      from Submariner_populate_panics [OF Inr Inl] Some Inr show ?thesis by simp
    next
      case spec: (Inr spec)
      show ?thesis
      proof (cases "submarinercr_Ensure_returns cl
                      (w @ [SecretEnsure ctx (ForKubernetes cp) ns (IPSecPSK bi)])
                      ctx (ForGeneral cp) ns spec")
        case None
        from Submariner_succeeds [OF Inr spec None] Some Inr show ?thesis by simp
      next
        case (Some e)
        from Submariner_cr_fails [OF Inr spec Some] \<open>brokerInfo = Some bi\<close> Inr
        show ?thesis by simp
      qed
    qed
  qed
qed

theorem Submariner_no_retry_witness:
  "snd (Submariner forbidden_cluster ''submariner-operator'' 0 east_producer
          (Some east_options) (Some east_brokerInfo) (Some east_brokerSecret) east_netconfig
          (Some east_repositoryInfo) wrapping_reporter [])
     = [SecretEnsure 0 1 ''submariner-operator'' (Some east_psk),
        ReporterError (Some (New ''secrets is forbidden''))
          ''Error creating PSK secret for cluster'']"
proof -
  have fails: "secret_Ensure_returns forbidden_cluster [] 0 (ForKubernetes east_producer)
      ''submariner-operator'' (IPSecPSK east_brokerInfo) = Inl (New ''secrets is forbidden'')"
    by (simp add: forbidden_cluster_def)
  from Submariner_no_retry [of forbidden_cluster "''submariner-operator''" 0 east_producer
      "Some east_options" "Some east_brokerInfo" "Some east_brokerSecret" east_netconfig
      "Some east_repositoryInfo" wrapping_reporter "[]"] fails
  show ?thesis
    by (auto simp: east_producer_def east_brokerInfo_def)
qed

section \<open>Cleaning up a generic cluster: what is returned and what is called\<close>

text \<open>
  C5. For every reporter and every \<open>generic.RunOnCluster\<close>, \<open>GenericCluster\<close> calls
  \<open>generic.RunOnCluster\<close> once, with the callback that is \<open>gwDeployer.Cleanup(status)\<close>, then
  calls \<open>status.Error\<close> with the error of that call and the message
  \<open>"Failed to cleanup generic K8s cluster"\<close>, returns what \<open>status.Error\<close> returns, and ends
  the reporter. When \<open>generic.RunOnCluster\<close> runs its callback once, on a deployer and with a
  reporter, the calls made are \<open>RunOnCluster\<close>, \<open>Cleanup\<close> with that reporter, \<open>status.Error\<close>
  and the deferred \<open>status.End\<close>. With a reporter that wraps with this message, the value
  returned is the error of the delegation wrapped with the message; with one that returns nil
  for nil, it is nil when the delegation succeeds.
\<close>

theorem GenericCluster_delegates:
  "(\<forall>err w1. generic_RunOnCluster clusterInfo status gwDeployer_Cleanup
                 (w @ [RunOnCluster clusterInfo]) = (err, w1)
      \<longrightarrow> GenericCluster generic_RunOnCluster clusterInfo status w
            = (Error_returns status err ''Failed to cleanup generic K8s cluster'',
               w1 @ [ReporterError err ''Failed to cleanup generic K8s cluster'', ReporterEnd]))
   \<and> GenericCluster (\<lambda>clusterInfo status function. function gwDeployer status')
        clusterInfo status w
      = (Error_returns status
           (Cleanup_returns gwDeployer status' (w @ [RunOnCluster clusterInfo]))
           ''Failed to cleanup generic K8s cluster'',
         w @ [RunOnCluster clusterInfo, GatewayCleanup status',
              ReporterError
                (Cleanup_returns gwDeployer status' (w @ [RunOnCluster clusterInfo]))
                ''Failed to cleanup generic K8s cluster'',
              ReporterEnd])
   \<and> (wraps_with status ''Failed to cleanup generic K8s cluster''
        \<longrightarrow> (\<forall>e w1. generic_RunOnCluster clusterInfo status gwDeployer_Cleanup
                       (w @ [RunOnCluster clusterInfo]) = (Some e, w1)
               \<longrightarrow> fst (GenericCluster generic_RunOnCluster clusterInfo status w)
                     = Some (Wrap e ''Failed to cleanup generic K8s cluster'')))
   \<and> (Error_returns status None ''Failed to cleanup generic K8s cluster'' = None
        \<longrightarrow> (\<forall>w1. generic_RunOnCluster clusterInfo status gwDeployer_Cleanup
                     (w @ [RunOnCluster clusterInfo]) = (None, w1)
               \<longrightarrow> fst (GenericCluster generic_RunOnCluster clusterInfo status w) = None))"
proof (intro conjI allI impI)
  fix err w1
  assume "generic_RunOnCluster clusterInfo status gwDeployer_Cleanup
            (w @ [RunOnCluster clusterInfo]) = (err, w1)"
  then show "GenericCluster generic_RunOnCluster clusterInfo status w
      = (Error_returns status err ''Failed to cleanup generic K8s cluster'',
         w1 @ [ReporterError err ''Failed to cleanup generic K8s cluster'', ReporterEnd])"
    by (simp add: GenericCluster_def status_Error_def status_End_def)
next
  show "GenericCluster (\<lambda>clusterInfo status function. function gwDeployer status')
        clusterInfo status w
      = (Error_returns status
           (Cleanup_returns gwDeployer status' (w @ [RunOnCluster clusterInfo]))
           ''Failed to cleanup generic K8s cluster'',
         w @ [RunOnCluster clusterInfo, GatewayCleanup status',
              ReporterError
                (Cleanup_returns gwDeployer status' (w @ [RunOnCluster clusterInfo]))
                ''Failed to cleanup generic K8s cluster'',
              ReporterEnd])"
    by (simp add: GenericCluster_def status_Error_def status_End_def gwDeployer_Cleanup_def)
next
  fix e w1
  assume "wraps_with status ''Failed to cleanup generic K8s cluster''"
    and "generic_RunOnCluster clusterInfo status gwDeployer_Cleanup
            (w @ [RunOnCluster clusterInfo]) = (Some e, w1)"
  then show "fst (GenericCluster generic_RunOnCluster clusterInfo status w)
      = Some (Wrap e ''Failed to cleanup generic K8s cluster'')"
    by (simp add: GenericCluster_def status_Error_def status_End_def wraps_with_def)
next
  fix w1
  assume "Error_returns status None ''Failed to cleanup generic K8s cluster'' = None"
    and "generic_RunOnCluster clusterInfo status gwDeployer_Cleanup
            (w @ [RunOnCluster clusterInfo]) = (None, w1)"
  then show "fst (GenericCluster generic_RunOnCluster clusterInfo status w) = None"
    by (simp add: GenericCluster_def status_Error_def status_End_def)
qed

theorem GenericCluster_delegates_witness:
  "GenericCluster
       (\<lambda>clusterInfo status function.
          function \<lparr>Cleanup_returns = (\<lambda>status w. Some (New ''timeout''))\<rparr> silent_reporter)
       7 wrapping_reporter []
     = (Some (Wrap (New ''timeout'') ''Failed to cleanup generic K8s cluster''),
        [RunOnCluster 7, GatewayCleanup silent_reporter,
         ReporterError (Some (New ''timeout'')) ''Failed to cleanup generic K8s cluster'',
         ReporterEnd])
   \<and> fst (GenericCluster
       (\<lambda>clusterInfo status function.
          function \<lparr>Cleanup_returns = (\<lambda>status w. Some (New ''timeout''))\<rparr> silent_reporter)
       7 wrapping_reporter [])
     = Some (Wrap (New ''timeout'') ''Failed to cleanup generic K8s cluster'')
   \<and> fst (GenericCluster
       (\<lambda>clusterInfo status function.
          function \<lparr>Cleanup_returns = (\<lambda>status w. None)\<rparr> status)
       7 wrapping_reporter [])
     = None"
proof -
  have wraps: "wraps_with wrapping_reporter ''Failed to cleanup generic K8s cluster''"
    by (simp add: wraps_with_def wrapping_reporter_def)
  have nil: "Error_returns wrapping_reporter None ''Failed to cleanup generic K8s cluster''
               = None"
    by (simp add: wrapping_reporter_def)
  have fails: "(\<lambda>clusterInfo status function.
                function \<lparr>Cleanup_returns = (\<lambda>status w. Some (New ''timeout''))\<rparr>
                  silent_reporter)
             7 wrapping_reporter gwDeployer_Cleanup ([] @ [RunOnCluster 7])
           = (Some (New ''timeout''), [RunOnCluster 7, GatewayCleanup silent_reporter])"
    by (simp add: gwDeployer_Cleanup_def)
  have succeeds: "(\<lambda>clusterInfo status function.
                function \<lparr>Cleanup_returns = (\<lambda>status w. None)\<rparr> status)
             7 wrapping_reporter gwDeployer_Cleanup ([] @ [RunOnCluster 7])
           = (None, [RunOnCluster 7, GatewayCleanup wrapping_reporter])"
    by (simp add: gwDeployer_Cleanup_def)
  from GenericCluster_delegates [
      where generic_RunOnCluster = "\<lambda>clusterInfo status function.
          function \<lparr>Cleanup_returns = (\<lambda>status w. Some (New ''timeout''))\<rparr> silent_reporter"
        and clusterInfo = 7 and w = "[]" and status = wrapping_reporter
        and gwDeployer = "\<lparr>Cleanup_returns = (\<lambda>status w. Some (New ''timeout''))\<rparr>"
        and status' = silent_reporter] wraps fails
  have a: "GenericCluster
       (\<lambda>clusterInfo status function.
          function \<lparr>Cleanup_returns = (\<lambda>status w. Some (New ''timeout''))\<rparr> silent_reporter)
       7 wrapping_reporter []
     = (Some (Wrap (New ''timeout'') ''Failed to cleanup generic K8s cluster''),
        [RunOnCluster 7, GatewayCleanup silent_reporter,
         ReporterError (Some (New ''timeout'')) ''Failed to cleanup generic K8s cluster'',
         ReporterEnd])"
    by (simp add: wraps_with_def)
  from GenericCluster_delegates [
      where generic_RunOnCluster = "\<lambda>clusterInfo status function.
          function \<lparr>Cleanup_returns = (\<lambda>status w. None)\<rparr> status"
        and clusterInfo = 7 and w = "[]" and status = wrapping_reporter] nil succeeds
  have b: "fst (GenericCluster
       (\<lambda>clusterInfo status function.
          function \<lparr>Cleanup_returns = (\<lambda>status w. None)\<rparr> status)
       7 wrapping_reporter [])
     = None"
    by simp
  from a b show ?thesis by simp
qed

end
